theory Spec2Isabelle
  imports Main "HOL-Library.AList"
begin

section \<open>Strings, exceptions and fields\<close>

text \<open>
  The program is \<^verbatim>\<open>bot.py\<close>, a contact book. A Python \<^verbatim>\<open>str\<close> is a sequence of
  code points; here it is a \<^typ>\<open>string\<close> whose characters are read as the code points
  U+0000 to U+00FF, so \<^const>\<open>length\<close> counts what Python's \<^verbatim>\<open>len\<close> counts. Strings with
  code points above U+00FF are outside this model.

  An exception is a value: the class that is raised and its message.
\<close>

datatype error = ValueError string | KeyError string | OverflowError string

text \<open>
  \<^verbatim>\<open>class Field\<close> (lines 9-14) holds one attribute, \<^verbatim>\<open>value\<close>; \<^verbatim>\<open>Name\<close>, \<^verbatim>\<open>Phone\<close> and
  \<^verbatim>\<open>Birthday\<close> are its subclasses and add no attribute.
\<close>

datatype field = MkField (field_value: string)

text \<open>
  \<^verbatim>\<open>str.isdigit\<close>: true when the string is not empty and every character has the Unicode
  property \<^verbatim>\<open>Numeric_Type=Digit\<close> or \<^verbatim>\<open>Numeric_Type=Decimal\<close>. Below U+0100 these are the ten
  ASCII digits and the three superscripts U+00B2, U+00B3 and U+00B9.
\<close>

definition isdigit_char :: "char \<Rightarrow> bool" where
  "isdigit_char c =
     (let n = (of_char c :: nat)
      in (48 \<le> n \<and> n \<le> 57) \<or> n = 178 \<or> n = 179 \<or> n = 185)"

definition isdigit :: "string \<Rightarrow> bool" where
  "isdigit s = (s \<noteq> [] \<and> list_all isdigit_char s)"

text \<open>A decimal digit, \<^verbatim>\<open>0\<close> to \<^verbatim>\<open>9\<close>: what the regular expression \<^verbatim>\<open>\d\<close> matches below U+0100.\<close>

definition is_decimal :: "char \<Rightarrow> bool" where
  "is_decimal c = (let n = (of_char c :: nat) in 48 \<le> n \<and> n \<le> 57)"

text \<open>\<^verbatim>\<open>Phone.validate\<close> (lines 27-29) and \<^verbatim>\<open>Phone.__init__\<close> (lines 22-25).\<close>

definition validate :: "string \<Rightarrow> bool" where
  "validate v = (isdigit v \<and> length v = 10)"

definition Phone :: "string \<Rightarrow> error + field" where
  "Phone v =
     (if \<not> validate v then Inl (ValueError ''Phone number must contain exactly 10 digits'')
      else Inr (MkField v))"

section \<open>Calendar dates\<close>

text \<open>
  \<^verbatim>\<open>datetime.date\<close> of the standard library: a year, a month and a day, with
  \<^verbatim>\<open>MINYEAR = 1\<close> and \<^verbatim>\<open>MAXYEAR = 9999\<close>. The helper functions follow the library's
  \<^verbatim>\<open>_is_leap\<close>, \<^verbatim>\<open>_days_in_month\<close>, \<^verbatim>\<open>_days_before_year\<close>, \<^verbatim>\<open>_days_before_month\<close> and
  \<^verbatim>\<open>_ymd2ord\<close>. Messages of library exceptions are shortened.
\<close>

datatype date = Date (year: int) (month: int) (day: int)

definition is_leap :: "int \<Rightarrow> bool" where
  "is_leap y = (y mod 4 = 0 \<and> (y mod 100 \<noteq> 0 \<or> y mod 400 = 0))"

definition DAYS_IN_MONTH :: "int list" where
  "DAYS_IN_MONTH = [-1, 31, 28, 31, 30, 31, 30, 31, 31, 30, 31, 30, 31]"

definition DAYS_BEFORE_MONTH :: "int list" where
  "DAYS_BEFORE_MONTH = [-1, 0, 31, 59, 90, 120, 151, 181, 212, 243, 273, 304, 334]"

definition days_in_month :: "int \<Rightarrow> int \<Rightarrow> int" where
  "days_in_month y m = (if m = 2 \<and> is_leap y then 29 else DAYS_IN_MONTH ! nat m)"

definition days_before_year :: "int \<Rightarrow> int" where
  "days_before_year y =
     (let p = y - 1 in p * 365 + p div 4 - p div 100 + p div 400)"

definition days_before_month :: "int \<Rightarrow> int \<Rightarrow> int" where
  "days_before_month y m =
     DAYS_BEFORE_MONTH ! nat m + (if m > 2 \<and> is_leap y then 1 else 0)"

definition ymd2ord :: "int \<Rightarrow> int \<Rightarrow> int \<Rightarrow> int" where
  "ymd2ord y m d = days_before_year y + days_before_month y m + d"

text \<open>The constructor \<^verbatim>\<open>date(year, month, day)\<close> with its \<^verbatim>\<open>_check_date_fields\<close>.\<close>

definition mk_date :: "int \<Rightarrow> int \<Rightarrow> int \<Rightarrow> error + date" where
  "mk_date y m d =
     (if \<not> (1 \<le> y \<and> y \<le> 9999) then Inl (ValueError ''year is out of range'')
      else if \<not> (1 \<le> m \<and> m \<le> 12) then Inl (ValueError ''month must be in 1..12'')
      else if \<not> (1 \<le> d \<and> d \<le> days_in_month y m)
        then Inl (ValueError ''day is out of range for month'')
      else Inr (Date y m d))"

text \<open>A date object that the constructor can have built.\<close>

definition valid_date :: "date \<Rightarrow> bool" where
  "valid_date dt =
     (1 \<le> year dt \<and> year dt \<le> 9999 \<and> 1 \<le> month dt \<and> month dt \<le> 12 \<and>
      1 \<le> day dt \<and> day dt \<le> days_in_month (year dt) (month dt))"

text \<open>\<^verbatim>\<open>date.replace(year=y)\<close> builds a new date and so checks the fields again.\<close>

definition replace_year :: "date \<Rightarrow> int \<Rightarrow> error + date" where
  "replace_year dt y = mk_date y (month dt) (day dt)"

definition toordinal :: "date \<Rightarrow> int" where
  "toordinal dt = ymd2ord (year dt) (month dt) (day dt)"

text \<open>\<^verbatim>\<open>date.weekday()\<close>: Monday is 0, Saturday 5, Sunday 6.\<close>

definition weekday :: "date \<Rightarrow> int" where
  "weekday dt = (toordinal dt + 6) mod 7"

text \<open>\<^verbatim>\<open>date.__lt__\<close> compares the triples (year, month, day).\<close>

definition date_lt :: "date \<Rightarrow> date \<Rightarrow> bool" where
  "date_lt a b =
     (year a < year b \<or>
      (year a = year b \<and> (month a < month b \<or> (month a = month b \<and> day a < day b))))"

text \<open>
  \<^verbatim>\<open>date + timedelta(days=n)\<close> is the date \<^verbatim>\<open>n\<close> days later, and raises
  \<^verbatim>\<open>OverflowError\<close> past 31.12.9999. It is modelled by stepping to the following day
  \<^verbatim>\<open>n\<close> times; \<open>toordinal_next_day\<close> below shows that each step adds one to the ordinal.
\<close>

definition next_day :: "date \<Rightarrow> error + date" where
  "next_day dt =
     (if day dt < days_in_month (year dt) (month dt)
        then Inr (Date (year dt) (month dt) (day dt + 1))
      else if month dt < 12 then Inr (Date (year dt) (month dt + 1) 1)
      else if year dt < 9999 then Inr (Date (year dt + 1) 1 1)
      else Inl (OverflowError ''date value out of range''))"

fun add_days :: "date \<Rightarrow> nat \<Rightarrow> error + date" where
  "add_days dt 0 = Inr dt"
| "add_days dt (Suc n) = (case next_day dt of Inl e \<Rightarrow> Inl e | Inr dt' \<Rightarrow> add_days dt' n)"

section \<open>Parsing and printing dates\<close>

text \<open>
  \<^verbatim>\<open>datetime.strptime(s, "%d.%m.%Y")\<close> compiles the format to the regular expression
  \<^verbatim>\<open>(?P<d>3[0-1]|[1-2]\d|0[1-9]|[1-9]| [1-9])\.(?P<m>1[0-2]|0[1-9]|[1-9])\.(?P<Y>\d\d\d\d)\<close>,
  takes its first match at the start of \<^verbatim>\<open>s\<close>, raises \<^verbatim>\<open>ValueError\<close> when there is none or
  when the match does not reach the end of \<^verbatim>\<open>s\<close>, and builds the date from the three
  groups. A matcher here returns the list of its matches in the order a backtracking
  matcher tries them: each is the matched text and the rest of the input. \<open>day_dot\<close> is
  the group \<^verbatim>\<open>d\<close> with the dot after it, \<open>month_dot\<close> the group \<^verbatim>\<open>m\<close> with the dot after it.
\<close>

definition in_range :: "char \<Rightarrow> char \<Rightarrow> char \<Rightarrow> bool" where
  "in_range lo hi c = ((of_char lo :: nat) \<le> of_char c \<and> (of_char c :: nat) \<le> of_char hi)"

fun alt1 :: "(char \<Rightarrow> bool) \<Rightarrow> string \<Rightarrow> (string \<times> string) list" where
  "alt1 p (a # rest) = (if p a then [([a], rest)] else [])"
| "alt1 p [] = []"

fun alt2 :: "(char \<Rightarrow> bool) \<Rightarrow> (char \<Rightarrow> bool) \<Rightarrow> string \<Rightarrow> (string \<times> string) list" where
  "alt2 p q (a # b # rest) = (if p a \<and> q b then [([a, b], rest)] else [])"
| "alt2 p q [a] = []"
| "alt2 p q [] = []"

definition group_d :: "string \<Rightarrow> (string \<times> string) list" where
  "group_d s =
     alt2 (\<lambda>c. c = CHR ''3'') (in_range CHR ''0'' CHR ''1'') s @
     alt2 (in_range CHR ''1'' CHR ''2'') is_decimal s @
     alt2 (\<lambda>c. c = CHR ''0'') (in_range CHR ''1'' CHR ''9'') s @
     alt1 (in_range CHR ''1'' CHR ''9'') s @
     alt2 (\<lambda>c. c = CHR '' '') (in_range CHR ''1'' CHR ''9'') s"

definition group_m :: "string \<Rightarrow> (string \<times> string) list" where
  "group_m s =
     alt2 (\<lambda>c. c = CHR ''1'') (in_range CHR ''0'' CHR ''2'') s @
     alt2 (\<lambda>c. c = CHR ''0'') (in_range CHR ''1'' CHR ''9'') s @
     alt1 (in_range CHR ''1'' CHR ''9'') s"

fun group_Y :: "string \<Rightarrow> (string \<times> string) list" where
  "group_Y (a # b # c # d # rest) =
     (if is_decimal a \<and> is_decimal b \<and> is_decimal c \<and> is_decimal d
      then [([a, b, c, d], rest)] else [])"
| "group_Y s = []"

fun dot :: "string \<Rightarrow> string list" where
  "dot (a # rest) = (if a = CHR ''.'' then [rest] else [])"
| "dot [] = []"

definition day_dot :: "string \<Rightarrow> (string \<times> string) list" where
  "day_dot s = [(d, r2). (d, r1) \<leftarrow> group_d s, r2 \<leftarrow> dot r1]"

definition month_dot :: "string \<Rightarrow> (string \<times> string) list" where
  "month_dot s = [(m, r2). (m, r1) \<leftarrow> group_m s, r2 \<leftarrow> dot r1]"

definition regex_match :: "string \<Rightarrow> (string \<times> string \<times> string \<times> string) list" where
  "regex_match s =
     [(d, m, Y, r3). (d, r1) \<leftarrow> day_dot s, (m, r2) \<leftarrow> month_dot r1, (Y, r3) \<leftarrow> group_Y r2]"

text \<open>\<^verbatim>\<open>int(text)\<close> on a group of the match: blanks around the digits are dropped.\<close>

definition digit_val :: "char \<Rightarrow> int" where
  "digit_val c = int (of_char c) - 48"

definition py_int :: "string \<Rightarrow> int" where
  "py_int s = foldl (\<lambda>acc c. 10 * acc + digit_val c) 0 (filter (\<lambda>c. c \<noteq> CHR '' '') s)"

definition strptime :: "string \<Rightarrow> error + date" where
  "strptime s =
     (case regex_match s of
        [] \<Rightarrow> Inl (ValueError ''time data does not match format'')
      | (d, m, Y, rest) # _ \<Rightarrow>
          if rest \<noteq> [] then Inl (ValueError ''unconverted data remains'')
          else mk_date (py_int Y) (py_int m) (py_int d))"

text \<open>
  \<^verbatim>\<open>date.strftime("%d.%m.%Y")\<close>: day and month with two digits, the year with four, as
  the library documents \<^verbatim>\<open>%Y\<close> (0001, ..., 9999).
\<close>

definition digit_char :: "int \<Rightarrow> char" where
  "digit_char k = ''0123456789'' ! nat k"

definition pad2 :: "int \<Rightarrow> string" where
  "pad2 n = [digit_char (n div 10), digit_char (n mod 10)]"

definition pad4 :: "int \<Rightarrow> string" where
  "pad4 n = [digit_char (n div 1000), digit_char (n div 100 mod 10),
             digit_char (n div 10 mod 10), digit_char (n mod 10)]"

definition strftime :: "date \<Rightarrow> string" where
  "strftime dt = pad2 (day dt) @ ''.'' @ pad2 (month dt) @ ''.'' @ pad4 (year dt)"

text \<open>\<^verbatim>\<open>Birthday.__init__\<close> (lines 33-38): any \<^verbatim>\<open>ValueError\<close> of the parse is replaced.\<close>

definition Birthday :: "string \<Rightarrow> error + field" where
  "Birthday v =
     (case strptime v of
        Inl e \<Rightarrow> Inl (ValueError ''Invalid date format. Use DD.MM.YYYY'')
      | Inr dt \<Rightarrow> Inr (MkField v))"


section \<open>Record\<close>

text \<open>
  \<^verbatim>\<open>class Record\<close> (lines 42-81). A method mutates the record in place and may raise, so
  it is a function from the record to the pair of its outcome and the record as the
  method leaves it: the second component is the state also when the first is an exception.
  Every \<^verbatim>\<open>Phone\<close> object of \<^verbatim>\<open>phones\<close> is created by its own constructor call, so no object
  stands twice in the list, and \<^verbatim>\<open>list.remove\<close> of the object that \<^verbatim>\<open>find_phone\<close> returned
  removes the first element with that value: \<^const>\<open>remove1\<close>.
\<close>

record Record =
  name :: field
  phones :: "field list"
  birthday :: "field option"

definition Record_init :: "string \<Rightarrow> Record" where
  "Record_init n = \<lparr>name = MkField n, phones = [], birthday = None\<rparr>"

definition find_phone :: "string \<Rightarrow> Record \<Rightarrow> field option" where
  "find_phone phone r = find (\<lambda>p. field_value p = phone) (phones r)"

definition add_phone :: "string \<Rightarrow> Record \<Rightarrow> (error + unit) \<times> Record" where
  "add_phone phone r =
     (case Phone phone of
        Inl e \<Rightarrow> (Inl e, r)
      | Inr p \<Rightarrow> (Inr (), r\<lparr>phones := phones r @ [p]\<rparr>))"

definition remove_phone :: "string \<Rightarrow> Record \<Rightarrow> (error + unit) \<times> Record" where
  "remove_phone phone r =
     (case find_phone phone r of
        Some phone_obj \<Rightarrow> (Inr (), r\<lparr>phones := remove1 phone_obj (phones r)\<rparr>)
      | None \<Rightarrow> (Inl (ValueError (''Phone '' @ phone @ '' not found'')), r))"

definition edit_phone :: "string \<Rightarrow> string \<Rightarrow> Record \<Rightarrow> (error + unit) \<times> Record" where
  "edit_phone old_phone new_phone r =
     (case find_phone old_phone r of
        None \<Rightarrow> (Inl (ValueError (''Phone '' @ old_phone @ '' not found'')), r)
      | Some phone_obj \<Rightarrow>
          if \<not> validate new_phone
            then (Inl (ValueError ''New phone number must contain exactly 10 digits''), r)
          else
            (let r1 = r\<lparr>phones := remove1 phone_obj (phones r)\<rparr>
             in case Phone new_phone of
                  Inl e \<Rightarrow> (Inl e, r1)
                | Inr p \<Rightarrow> (Inr (), r1\<lparr>phones := phones r1 @ [p]\<rparr>)))"

definition add_birthday :: "string \<Rightarrow> Record \<Rightarrow> (error + unit) \<times> Record" where
  "add_birthday b r =
     (case Birthday b of
        Inl e \<Rightarrow> (Inl e, r)
      | Inr f \<Rightarrow> (Inr (), r\<lparr>birthday := Some f\<rparr>))"

section \<open>AddressBook\<close>

text \<open>
  \<^verbatim>\<open>class AddressBook(UserDict)\<close> (lines 84-130). Its \<^verbatim>\<open>data\<close> is a \<^verbatim>\<open>dict\<close>, which keeps
  its keys in the order of their first insertion: an association list with distinct keys.
  Assigning to a key that is present replaces the value where it stands, assigning to a
  new key appends (\<^const>\<open>AList.update\<close>), and \<^verbatim>\<open>del\<close> removes the entry (\<^const>\<open>AList.delete\<close>).
\<close>

type_synonym AddressBook = "(string \<times> Record) list"

definition add_record :: "Record \<Rightarrow> AddressBook \<Rightarrow> (error + unit) \<times> AddressBook" where
  "add_record record book = (Inr (), AList.update (field_value (name record)) record book)"

definition find_record :: "string \<Rightarrow> AddressBook \<Rightarrow> Record option" where
  "find_record n book = map_of book n"

definition delete :: "string \<Rightarrow> AddressBook \<Rightarrow> (error + unit) \<times> AddressBook" where
  "delete n book =
     (if map_of book n \<noteq> None then (Inr (), AList.delete n book)
      else (Inl (KeyError (''Contact '' @ n @ '' not found'')), book))"

text \<open>
  \<^verbatim>\<open>get_upcoming_birthdays\<close> (lines 97-125). The current date, \<^verbatim>\<open>datetime.today().date()\<close>,
  is the parameter \<open>today\<close>. \<open>birthday_this_year\<close> is lines 106-109, \<open>congratulation_date\<close>
  lines 114-118, \<open>upcoming_entry\<close> one pass of the loop body (\<open>None\<close> when nothing is
  appended), and \<open>upcoming_loop\<close> the loop over \<^verbatim>\<open>self.data.values()\<close>. An item of the result,
  the dictionary with the keys \<^verbatim>\<open>"name"\<close> and \<^verbatim>\<open>"birthday"\<close>, is the pair of the two values.
\<close>

definition birthday_this_year :: "date \<Rightarrow> date \<Rightarrow> error + date" where
  "birthday_this_year today birthday_date =
     (case replace_year birthday_date (year today) of
        Inl e \<Rightarrow> Inl e
      | Inr bty \<Rightarrow>
          if date_lt bty today then replace_year birthday_date (year today + 1)
          else Inr bty)"

definition congratulation_date :: "date \<Rightarrow> error + date" where
  "congratulation_date bty =
     (if weekday bty = 5 then add_days bty 2
      else if weekday bty = 6 then add_days bty 1
      else Inr bty)"

definition upcoming_entry :: "date \<Rightarrow> Record \<Rightarrow> error + (string \<times> string) option" where
  "upcoming_entry today record =
     (case birthday record of
        None \<Rightarrow> Inr None
      | Some b \<Rightarrow>
          (case strptime (field_value b) of
             Inl e \<Rightarrow> Inl e
           | Inr birthday_date \<Rightarrow>
               (case birthday_this_year today birthday_date of
                  Inl e \<Rightarrow> Inl e
                | Inr bty \<Rightarrow>
                    (let days_until_birthday = toordinal bty - toordinal today
                     in if 0 \<le> days_until_birthday \<and> days_until_birthday \<le> 7
                        then (case congratulation_date bty of
                                Inl e \<Rightarrow> Inl e
                              | Inr cd \<Rightarrow>
                                  Inr (Some (field_value (name record), strftime cd)))
                        else Inr None))))"

fun upcoming_loop ::
  "date \<Rightarrow> Record list \<Rightarrow> (string \<times> string) list \<Rightarrow> error + (string \<times> string) list" where
  "upcoming_loop today [] upcoming = Inr upcoming"
| "upcoming_loop today (record # rest) upcoming =
     (case upcoming_entry today record of
        Inl e \<Rightarrow> Inl e
      | Inr None \<Rightarrow> upcoming_loop today rest upcoming
      | Inr (Some item) \<Rightarrow> upcoming_loop today rest (upcoming @ [item]))"

definition get_upcoming_birthdays :: "date \<Rightarrow> AddressBook \<Rightarrow> error + (string \<times> string) list" where
  "get_upcoming_birthdays today book = upcoming_loop today (map snd book) []"

text \<open>A sequence of calls on a book; a call that raises is caught by the caller.\<close>

datatype book_op = AddRecord Record | Delete string

fun run_ops :: "book_op list \<Rightarrow> AddressBook \<Rightarrow> AddressBook" where
  "run_ops [] book = book"
| "run_ops (AddRecord r # ops) book = run_ops ops (snd (add_record r book))"
| "run_ops (Delete n # ops) book = run_ops ops (snd (delete n book))"






text \<open>The invariant of the book: every key is the name of the record stored under it.\<close>

definition key_is_name :: "AddressBook \<Rightarrow> bool" where
  "key_is_name book = list_all (\<lambda>(k, r). k = field_value (name r)) book"

section \<open>Properties\<close>

lemma is_decimal_isdigit: "is_decimal c \<Longrightarrow> isdigit_char c"
  by (simp add: is_decimal_def isdigit_char_def Let_def)

subsection \<open>Phones\<close>

lemma validate_iff: "validate s \<longleftrightarrow> length s = 10 \<and> list_all isdigit_char s"
  by (auto simp: validate_def isdigit_def)

lemma isdigit_char_iff:
  "isdigit_char c \<longleftrightarrow> is_decimal c \<or> c = CHR 0xB2 \<or> c = CHR 0xB3 \<or> c = CHR 0xB9"
proof -
  have a: "(of_char c = (178::nat)) = (c = CHR 0xB2)"
    using of_char_eq_iff [of c "CHR 0xB2", where ?'a = nat] by simp
  have b: "(of_char c = (179::nat)) = (c = CHR 0xB3)"
    using of_char_eq_iff [of c "CHR 0xB3", where ?'a = nat] by simp
  have d: "(of_char c = (185::nat)) = (c = CHR 0xB9)"
    using of_char_eq_iff [of c "CHR 0xB9", where ?'a = nat] by simp
  show ?thesis by (simp add: isdigit_char_def is_decimal_def Let_def a b d)
qed

lemma isdigit_char_ascii: "(of_char c :: nat) < 128 \<Longrightarrow> isdigit_char c = is_decimal c"
  by (auto simp: isdigit_char_def is_decimal_def Let_def)

lemma validate_ascii:
  assumes "list_all (\<lambda>c. (of_char c :: nat) < 128) s"
  shows "validate s = (length s = 10 \<and> list_all is_decimal s)"
proof -
  from assms have "list_all isdigit_char s = list_all is_decimal s"
    by (induction s) (auto simp: isdigit_char_ascii)
  then show ?thesis by (simp add: validate_iff)
qed

lemma find_phone_None: "find_phone phone r = None \<longleftrightarrow> MkField phone \<notin> set (phones r)"
proof -
  have "(\<forall>x. x \<in> set (phones r) \<longrightarrow> field_value x \<noteq> phone) = (MkField phone \<notin> set (phones r))"
    by (metis field.collapse field.sel)
  then show ?thesis by (simp add: find_phone_def find_None_iff)
qed

lemma find_SomeD: "find P xs = Some x \<Longrightarrow> P x \<and> x \<in> set xs"
  by (induction xs) (auto split: if_splits)

lemma find_phone_Some: "find_phone phone r = Some p \<Longrightarrow> p = MkField phone \<and> p \<in> set (phones r)"
  unfolding find_phone_def by (cases p) (auto dest: find_SomeD)

lemma Phone_valid: "validate v \<Longrightarrow> Phone v = Inr (MkField v)"
  by (simp add: Phone_def)

lemma remove1_first: "x \<notin> set xs \<Longrightarrow> remove1 x (xs @ x # ys) = xs @ ys"
  by (induction xs) auto

lemma edit_phone_eq:
  "edit_phone old_phone new_phone r =
     (if MkField old_phone \<notin> set (phones r)
        then (Inl (ValueError (''Phone '' @ old_phone @ '' not found'')), r)
      else if \<not> validate new_phone
        then (Inl (ValueError ''New phone number must contain exactly 10 digits''), r)
      else (Inr (), r\<lparr>phones := remove1 (MkField old_phone) (phones r) @ [MkField new_phone]\<rparr>))"
proof (cases "find_phone old_phone r")
  case None
  then show ?thesis using find_phone_None [of old_phone r] by (simp add: edit_phone_def)
next
  case (Some p)
  then have "p = MkField old_phone" "MkField old_phone \<in> set (phones r)"
    using find_phone_Some by blast+
  with Some show ?thesis by (simp add: edit_phone_def Phone_valid Let_def)
qed


subsection \<open>The calendar\<close>

lemma month_cases:
  "1 \<le> m \<Longrightarrow> m \<le> (12::int) \<Longrightarrow>
   m = 1 \<or> m = 2 \<or> m = 3 \<or> m = 4 \<or> m = 5 \<or> m = 6 \<or> m = 7 \<or> m = 8 \<or> m = 9 \<or> m = 10 \<or> m = 11 \<or> m = 12"
  by arith

lemma days_in_month_pos: "1 \<le> m \<Longrightarrow> m \<le> 12 \<Longrightarrow> 28 \<le> days_in_month y m"
  using month_cases [of m] by (auto simp: days_in_month_def DAYS_IN_MONTH_def)

lemma days_before_month_step:
  "1 \<le> m \<Longrightarrow> m < 12 \<Longrightarrow>
   days_before_month y (m + 1) = days_before_month y m + days_in_month y m"
  using month_cases [of m]
  by (auto simp: days_before_month_def days_in_month_def DAYS_BEFORE_MONTH_def DAYS_IN_MONTH_def)

lemma div_step:
  fixes y k :: int
  assumes "0 < k"
  shows "y div k = (y - 1) div k + (if y mod k = 0 then 1 else 0)"
proof (cases "y mod k = 0")
  case True
  have "y - 1 = k * (y div k - 1) + (k - 1)"
    using True mult_div_mod_eq [of k y] by (simp add: algebra_simps)
  then have "(y - 1) div k = y div k - 1"
    using assms by (intro int_div_pos_eq [where r = "k - 1"]) simp_all
  with True show ?thesis by simp
next
  case False
  have r: "0 \<le> y mod k" "y mod k < k" using assms by simp_all
  have "y - 1 = k * (y div k) + (y mod k - 1)"
    using mult_div_mod_eq [of k y] by (simp add: algebra_simps)
  then have "(y - 1) div k = y div k"
    using assms r False by (intro int_div_pos_eq [where r = "y mod k - 1"]) simp_all
  with False show ?thesis by simp
qed

lemma leap_count:
  fixes a b c :: int
  assumes "a = (if A then 1 else 0)" and "b = (if B then 1 else 0)" and "c = (if C then 1 else 0)"
    and "C \<Longrightarrow> B" and "B \<Longrightarrow> A"
  shows "a - b + c = (if A \<and> (\<not> B \<or> C) then 1 else 0)"
  using assms by (cases A; cases B; cases C) simp_all

lemma year_sum:
  fixes p q a b c x :: int
  shows "p - q = 365 + a - b + c \<Longrightarrow> a - b + c = x \<Longrightarrow> p = q + 365 + x"
  by simp

lemma days_before_year_step:
  "days_before_year (y + 1) = days_before_year y + 365 + (if is_leap y then 1 else 0)"
proof -
  have a: "y div 4 - (y - 1) div 4 = (if y mod 4 = 0 then 1 else 0)"
    using div_step [of 4 y] by linarith
  have b: "y div 100 - (y - 1) div 100 = (if y mod 100 = 0 then 1 else 0)"
    using div_step [of 100 y] by linarith
  have c: "y div 400 - (y - 1) div 400 = (if y mod 400 = 0 then 1 else 0)"
    using div_step [of 400 y] by linarith
  have d: "y mod 400 = 0 \<Longrightarrow> y mod 100 = 0" using mod_mod_cancel [of 100 400 y] by simp
  have e: "y mod 100 = 0 \<Longrightarrow> y mod 4 = 0" using mod_mod_cancel [of 4 100 y] by simp
  have f: "days_before_year (y + 1) - days_before_year y =
      365 + (y div 4 - (y - 1) div 4) - (y div 100 - (y - 1) div 100) + (y div 400 - (y - 1) div 400)"
    by (simp add: days_before_year_def Let_def algebra_simps)
  have g: "(y div 4 - (y - 1) div 4) - (y div 100 - (y - 1) div 100) + (y div 400 - (y - 1) div 400)
      = (if is_leap y then 1 else 0)"
    unfolding is_leap_def by (rule leap_count [OF a b c d e])
  show ?thesis by (rule year_sum [OF f g])
qed

lemma days_before_month_12: "days_before_month y 12 + 31 = 365 + (if is_leap y then 1 else 0)"
  by (simp add: days_before_month_def DAYS_BEFORE_MONTH_def)

lemma days_in_month_12: "days_in_month y 12 = 31"
  by (simp add: days_in_month_def DAYS_IN_MONTH_def)

lemma days_before_month_1: "days_before_month y 1 = 0"
  by (simp add: days_before_month_def DAYS_BEFORE_MONTH_def)

lemma next_day_step:
  assumes "valid_date dt" and "next_day dt = Inr dt'"
  shows "valid_date dt' \<and> toordinal dt' = toordinal dt + 1"
proof (cases dt)
  case (Date y m d)
  with assms(1) have v: "1 \<le> y" "y \<le> 9999" "1 \<le> m" "m \<le> 12" "1 \<le> d" "d \<le> days_in_month y m"
    by (simp_all add: valid_date_def)
  show ?thesis
  proof (cases "d < days_in_month y m")
    case True
    with assms(2) Date have "dt' = Date y m (d + 1)" by (simp add: next_day_def)
    with True v Date show ?thesis by (simp add: valid_date_def toordinal_def ymd2ord_def)
  next
    case last: False
    with v have d: "d = days_in_month y m" by simp
    show ?thesis
    proof (cases "m < 12")
      case True
      with assms(2) Date last have "dt' = Date y (m + 1) 1" by (simp add: next_day_def)
      moreover have "28 \<le> days_in_month y (m + 1)" using v True by (intro days_in_month_pos) auto
      ultimately show ?thesis
        using v True Date d days_before_month_step [of m y]
        by (simp add: valid_date_def toordinal_def ymd2ord_def)
    next
      case False
      with v have m: "m = 12" by simp
      with assms(2) Date last have y: "y < 9999" and "dt' = Date (y + 1) 1 1"
        by (auto simp: next_day_def split: if_splits)
      then show ?thesis
        using v Date d m days_before_year_step [of y] days_before_month_12 [of y]
        by (simp add: valid_date_def toordinal_def ymd2ord_def days_in_month_12
            days_before_month_1 days_in_month_def DAYS_IN_MONTH_def)
    qed
  qed
qed





lemma add_days_step:
  "valid_date dt \<Longrightarrow> add_days dt n = Inr dt' \<Longrightarrow>
   valid_date dt' \<and> toordinal dt' = toordinal dt + int n"
proof (induction n arbitrary: dt)
  case 0
  then show ?case by simp
next
  case (Suc n)
  from Suc.prems(2) obtain d1 where d1: "next_day dt = Inr d1" and rest: "add_days d1 n = Inr dt'"
    by (cases "next_day dt") simp_all
  from next_day_step [OF Suc.prems(1) d1] have "valid_date d1" "toordinal d1 = toordinal dt + 1"
    by simp_all
  with Suc.IH [OF _ rest] show ?case by simp
qed




subsection \<open>Records and the book\<close>

lemma superscript_two: "isdigit_char (CHR 0xB2) \<and> \<not> is_decimal (CHR 0xB2)"
  by (simp add: isdigit_char_def is_decimal_def)

lemma add_phone_fail: "fst (add_phone phone r) = Inl e \<Longrightarrow> snd (add_phone phone r) = r"
  by (cases "Phone phone") (simp_all add: add_phone_def)

lemma remove_phone_fail: "fst (remove_phone phone r) = Inl e \<Longrightarrow> snd (remove_phone phone r) = r"
  by (cases "find_phone phone r") (simp_all add: remove_phone_def)

lemma edit_phone_fail:
  "fst (edit_phone old_phone new_phone r) = Inl e \<Longrightarrow> snd (edit_phone old_phone new_phone r) = r"
  by (simp add: edit_phone_eq split: if_splits)

lemma add_birthday_fail: "fst (add_birthday b r) = Inl e \<Longrightarrow> snd (add_birthday b r) = r"
  by (cases "Birthday b") (simp_all add: add_birthday_def)

lemma delete_fail: "fst (delete n book) = Inl e \<Longrightarrow> snd (delete n book) = book"
  by (simp add: delete_def split: if_splits)

lemma update_set: "set (AList.update k v al) \<subseteq> insert (k, v) (set al)"
  by (induction al) auto

lemma delete_set: "set (AList.delete k al) \<subseteq> set al"
  by (auto simp: AList.delete_eq)

lemma key_is_name_add_record: "key_is_name book \<Longrightarrow> key_is_name (snd (add_record r book))"
  using update_set [of "field_value (name r)" r book]
  by (auto simp: key_is_name_def add_record_def list_all_iff)

lemma key_is_name_delete: "key_is_name book \<Longrightarrow> key_is_name (snd (delete n book))"
  using delete_set [of n book]
  by (auto simp: key_is_name_def delete_def list_all_iff)

lemma distinct_add_record:
  "distinct (map fst book) \<Longrightarrow> distinct (map fst (snd (add_record r book)))"
  by (simp add: add_record_def distinct_update)

lemma distinct_delete_book:
  "distinct (map fst book) \<Longrightarrow> distinct (map fst (snd (delete n book)))"
  by (simp add: delete_def distinct_delete)

lemma run_ops_inv:
  "key_is_name book \<Longrightarrow> distinct (map fst book) \<Longrightarrow>
   key_is_name (run_ops ops book) \<and> distinct (map fst (run_ops ops book))"
proof (induction ops arbitrary: book)
  case Nil
  then show ?case by simp
next
  case (Cons op ops)
  show ?case
  proof (cases op)
    case (AddRecord r)
    with Cons.IH [of "snd (add_record r book)"] Cons.prems show ?thesis
      by (simp add: key_is_name_add_record distinct_add_record)
  next
    case (Delete n)
    with Cons.IH [of "snd (delete n book)"] Cons.prems show ?thesis
      by (simp add: key_is_name_delete distinct_delete_book)
  qed
qed

lemma delete_split:
  assumes "distinct (map fst book)" and "map_of book n = Some r"
  shows "\<exists>xs ys. book = xs @ (n, r) # ys \<and> AList.delete n book = xs @ ys"
proof -
  from assms(2) have "(n, r) \<in> set book" by (rule map_of_SomeD)
  then obtain xs ys where b: "book = xs @ (n, r) # ys" by (auto dest: split_list)
  with assms(1) have "n \<notin> fst ` set xs" "n \<notin> fst ` set ys" by auto
  then have "AList.delete n xs = xs" "AList.delete n ys = ys" by simp_all
  with b have "AList.delete n book = xs @ ys" by (simp add: AList.delete_eq)
  with b show ?thesis by blast
qed

text \<open>
  What \<^verbatim>\<open>edit_phone\<close> does, over the program's own \<open>validate\<close>: the "not found"
  \<^verbatim>\<open>ValueError\<close> when no stored phone has the value \<^verbatim>\<open>old_phone\<close>, otherwise the "must contain
  exactly 10 digits" \<^verbatim>\<open>ValueError\<close> when \<^verbatim>\<open>new_phone\<close> does not validate, both with the record
  as it was; otherwise the first phone with the value \<^verbatim>\<open>old_phone\<close> is removed and the new
  phone appended at the end.
\<close>

lemma edit_phone_cases:
  "(MkField old_phone \<notin> set (phones r) \<longrightarrow>
      edit_phone old_phone new_phone r =
        (Inl (ValueError (''Phone '' @ old_phone @ '' not found'')), r)) \<and>
   (MkField old_phone \<in> set (phones r) \<and> \<not> validate new_phone \<longrightarrow>
      edit_phone old_phone new_phone r =
        (Inl (ValueError ''New phone number must contain exactly 10 digits''), r)) \<and>
   (phones r = xs @ MkField old_phone # ys \<and> MkField old_phone \<notin> set xs \<and> validate new_phone \<longrightarrow>
      edit_phone old_phone new_phone r =
        (Inr (), r\<lparr>phones := xs @ ys @ [MkField new_phone]\<rparr>)) \<and>
   edit_phone ''1111111111'' ''2222222222'' (Record_init n\<lparr>phones := [MkField ''1111111111'']\<rparr>) =
     (Inr (), Record_init n\<lparr>phones := [MkField ''2222222222'']\<rparr>)"
proof -
  have v: "validate ''2222222222''"
    by (simp add: validate_def isdigit_def isdigit_char_def)
  show ?thesis
    by (simp add: edit_phone_eq remove1_first v)
qed

lemma edit_phone_cases_example:
  "edit_phone ''5'' ''2222222222'' (Record_init ''Ann'') =
     (Inl (ValueError ''Phone 5 not found''), Record_init ''Ann'') \<and>
   edit_phone ''1111111111'' ''22'' (Record_init ''Ann''\<lparr>phones := [MkField ''1111111111'']\<rparr>) =
     (Inl (ValueError ''New phone number must contain exactly 10 digits''),
      Record_init ''Ann''\<lparr>phones := [MkField ''1111111111'']\<rparr>) \<and>
   edit_phone ''1111111111'' ''2222222222''
       (Record_init ''Ann''\<lparr>phones := [MkField ''3333333333'', MkField ''1111111111'',
                                           MkField ''4444444444'', MkField ''1111111111'']\<rparr>) =
     (Inr (), Record_init ''Ann''\<lparr>phones := [MkField ''3333333333'', MkField ''4444444444'',
                                           MkField ''1111111111'', MkField ''2222222222'']\<rparr>)"
proof -
  have v: "validate ''2222222222''" "\<not> validate ''22''"
    by (simp_all add: validate_def isdigit_def isdigit_char_def)
  have a: "MkField ''5'' \<notin> set (phones (Record_init ''Ann''))"
    by (simp add: Record_init_def)
  have b: "MkField ''1111111111'' \<in> set (phones (Record_init ''Ann''\<lparr>phones := [MkField ''1111111111'']\<rparr>))"
    by simp
  have c: "phones (Record_init ''Ann''\<lparr>phones := [MkField ''3333333333'', MkField ''1111111111'',
                                           MkField ''4444444444'', MkField ''1111111111'']\<rparr>) =
      [MkField ''3333333333''] @ MkField ''1111111111'' # [MkField ''4444444444'', MkField ''1111111111'']"
     "MkField ''1111111111'' \<notin> set [MkField ''3333333333'']"
    by simp_all
  show ?thesis
    using edit_phone_cases [of "''5''" "Record_init ''Ann''" "''2222222222''" "[]" "[]" "''Ann''"]
      edit_phone_cases [of "''1111111111''" "Record_init ''Ann''\<lparr>phones := [MkField ''1111111111'']\<rparr>" "''22''" "[]" "[]" "''Ann''"]
      edit_phone_cases [of "''1111111111''" "Record_init ''Ann''\<lparr>phones := [MkField ''3333333333'', MkField ''1111111111'',
                                           MkField ''4444444444'', MkField ''1111111111'']\<rparr>" "''2222222222''"
          "[MkField ''3333333333'']" "[MkField ''4444444444'', MkField ''1111111111'']" "''Ann''"]
      a b c v
    by simp
qed

subsection \<open>Upcoming birthdays\<close>





lemma upcoming_loop_raises:
  "r \<in> set rs \<Longrightarrow> upcoming_entry today r = Inl e \<Longrightarrow> \<exists>e'. upcoming_loop today rs acc = Inl e'"
proof (induction rs arbitrary: acc)
  case Nil
  then show ?case by simp
next
  case (Cons x rs)
  show ?case
  proof (cases "upcoming_entry today x")
    case (Inl e0)
    then show ?thesis by simp
  next
    case (Inr entry)
    with Cons.prems have "r \<in> set rs" by auto
    from Cons.IH [OF this Cons.prems(2)] Inr show ?thesis
      by (cases entry) simp_all
  qed
qed







subsection \<open>Parsing a birthday\<close>








































section \<open>The claims\<close>

text \<open>
  Claim C4. \<^verbatim>\<open>edit_phone(old_phone, new_phone)\<close> should fail with the spec's
  \<^verbatim>\<open>ValidationError\<close> when a phone with the value \<^verbatim>\<open>old_phone\<close> is stored and \<^verbatim>\<open>new_phone\<close> is
  no valid phone of ten decimal digits. The program tests \<^verbatim>\<open>Phone.validate(new_phone)\<close>,
  which also accepts the superscript digits (claim C5): with the new phone of ten characters
  U+00B2 the call returns, removes the old phone and stores the new one. The other parts
  of the claim hold (\<open>edit_phone_cases\<close> above, and \<open>validate_ascii\<close> for what
  \<open>validate\<close> accepts among the ASCII strings).
\<close>

theorem edit_phone_superscript:
  "edit_phone ''1111111111''
     [CHR 0xB2, CHR 0xB2, CHR 0xB2, CHR 0xB2, CHR 0xB2, CHR 0xB2, CHR 0xB2, CHR 0xB2, CHR 0xB2, CHR 0xB2]
     (Record_init ''Ann''\<lparr>phones := [MkField ''1111111111'']\<rparr>) =
     (Inr (),
      Record_init ''Ann''\<lparr>phones :=
        [MkField [CHR 0xB2, CHR 0xB2, CHR 0xB2, CHR 0xB2, CHR 0xB2, CHR 0xB2, CHR 0xB2, CHR 0xB2, CHR 0xB2, CHR 0xB2]]\<rparr>) \<and>
   length [CHR 0xB2, CHR 0xB2, CHR 0xB2, CHR 0xB2, CHR 0xB2, CHR 0xB2, CHR 0xB2, CHR 0xB2, CHR 0xB2, CHR 0xB2] = 10 \<and>
   \<not> is_decimal (CHR 0xB2)"
proof -
  have v: "validate [CHR 0xB2, CHR 0xB2, CHR 0xB2, CHR 0xB2, CHR 0xB2, CHR 0xB2, CHR 0xB2, CHR 0xB2, CHR 0xB2, CHR 0xB2]"
    unfolding validate_iff using superscript_two by simp
  show ?thesis using superscript_two by (simp add: edit_phone_eq v)
qed

text \<open>
  Claim C5. Constructing a \<^verbatim>\<open>Phone\<close> succeeds exactly for the strings of ten decimal digits.
  The program tests \<^verbatim>\<open>value.isdigit() and len(value) == 10\<close>, and \<^verbatim>\<open>str.isdigit\<close> also
  accepts the superscript digits U+00B2, U+00B3 and U+00B9, which are no decimal digits:
  the string of ten characters U+00B2 is accepted as a phone (\<open>validate_iff\<close> and
  \<open>isdigit_char_iff\<close> above give the set of accepted strings).
\<close>

theorem phone_superscript:
  "Phone [CHR 0xB2, CHR 0xB2, CHR 0xB2, CHR 0xB2, CHR 0xB2, CHR 0xB2, CHR 0xB2, CHR 0xB2, CHR 0xB2, CHR 0xB2] =
     Inr (MkField [CHR 0xB2, CHR 0xB2, CHR 0xB2, CHR 0xB2, CHR 0xB2, CHR 0xB2, CHR 0xB2, CHR 0xB2, CHR 0xB2, CHR 0xB2]) \<and>
   \<not> is_decimal (CHR 0xB2)"
proof -
  have "validate [CHR 0xB2, CHR 0xB2, CHR 0xB2, CHR 0xB2, CHR 0xB2, CHR 0xB2, CHR 0xB2, CHR 0xB2, CHR 0xB2, CHR 0xB2]"
    unfolding validate_iff using superscript_two by simp
  then show ?thesis using superscript_two by (simp add: Phone_valid)
qed

text \<open>
  Claim C7. When \<^verbatim>\<open>add_phone\<close>, \<^verbatim>\<open>remove_phone\<close>, \<^verbatim>\<open>edit_phone\<close>, \<^verbatim>\<open>add_birthday\<close> or
  \<^verbatim>\<open>delete\<close> raises, the record (for \<^verbatim>\<open>delete\<close>, the book) is as it was before the call; a
  method of a record reads and writes that record only. \<^verbatim>\<open>add_record\<close> never raises.
\<close>

theorem failure_keeps_state:
  "(fst (add_phone phone r) = Inl e1 \<longrightarrow> snd (add_phone phone r) = r) \<and>
   (fst (remove_phone phone r) = Inl e2 \<longrightarrow> snd (remove_phone phone r) = r) \<and>
   (fst (edit_phone old_phone new_phone r) = Inl e3 \<longrightarrow>
      snd (edit_phone old_phone new_phone r) = r) \<and>
   (fst (add_birthday b r) = Inl e4 \<longrightarrow> snd (add_birthday b r) = r) \<and>
   fst (add_record record book) = Inr () \<and>
   (fst (delete n book) = Inl e5 \<longrightarrow> snd (delete n book) = book)"
  using add_phone_fail [of phone r e1] remove_phone_fail [of phone r e2]
    edit_phone_fail [of old_phone new_phone r e3] add_birthday_fail [of b r e4]
    delete_fail [of n book e5]
  by (simp add: add_record_def)

theorem failure_keeps_state_witness:
  "add_phone ''12'' (Record_init ''Ann''\<lparr>phones := [MkField ''1111111111'']\<rparr>) =
     (Inl (ValueError ''Phone number must contain exactly 10 digits''),
      Record_init ''Ann''\<lparr>phones := [MkField ''1111111111'']\<rparr>) \<and>
   remove_phone ''12'' (Record_init ''Ann''\<lparr>phones := [MkField ''1111111111'']\<rparr>) =
     (Inl (ValueError ''Phone 12 not found''),
      Record_init ''Ann''\<lparr>phones := [MkField ''1111111111'']\<rparr>) \<and>
   edit_phone ''1111111111'' ''22'' (Record_init ''Ann''\<lparr>phones := [MkField ''1111111111'']\<rparr>) =
     (Inl (ValueError ''New phone number must contain exactly 10 digits''),
      Record_init ''Ann''\<lparr>phones := [MkField ''1111111111'']\<rparr>) \<and>
   add_birthday ''31.02.2020'' (Record_init ''Ann''\<lparr>phones := [MkField ''1111111111'']\<rparr>) =
     (Inl (ValueError ''Invalid date format. Use DD.MM.YYYY''),
      Record_init ''Ann''\<lparr>phones := [MkField ''1111111111'']\<rparr>) \<and>
   delete ''Eve'' [(''Ann'', Record_init ''Ann'')] =
     (Inl (KeyError ''Contact Eve not found''), [(''Ann'', Record_init ''Ann'')])"
proof -
  let ?r = "Record_init ''Ann''\<lparr>phones := [MkField ''1111111111'']\<rparr>"
  have f1: "fst (add_phone ''12'' ?r) = Inl (ValueError ''Phone number must contain exactly 10 digits'')"
    by code_simp
  have f2: "fst (remove_phone ''12'' ?r) = Inl (ValueError ''Phone 12 not found'')"
    by code_simp
  have f3: "fst (edit_phone ''1111111111'' ''22'' ?r) =
      Inl (ValueError ''New phone number must contain exactly 10 digits'')"
    by code_simp
  have f4: "fst (add_birthday ''31.02.2020'' ?r) = Inl (ValueError ''Invalid date format. Use DD.MM.YYYY'')"
    by code_simp
  have f5: "fst (delete ''Eve'' [(''Ann'', Record_init ''Ann'')]) = Inl (KeyError ''Contact Eve not found'')"
    by code_simp
  note k = failure_keeps_state [where phone = "''12''" and r = ?r
      and ?e1.0 = "ValueError ''Phone number must contain exactly 10 digits''"
      and ?e2.0 = "ValueError ''Phone 12 not found''"
      and old_phone = "''1111111111''" and new_phone = "''22''"
      and ?e3.0 = "ValueError ''New phone number must contain exactly 10 digits''"
      and b = "''31.02.2020''" and ?e4.0 = "ValueError ''Invalid date format. Use DD.MM.YYYY''"
      and n = "''Eve''" and book = "[(''Ann'', Record_init ''Ann'')]"
      and ?e5.0 = "KeyError ''Contact Eve not found''"]
  from k f1 have s1: "snd (add_phone ''12'' ?r) = ?r" by blast
  from k f2 have s2: "snd (remove_phone ''12'' ?r) = ?r" by blast
  from k f3 have s3: "snd (edit_phone ''1111111111'' ''22'' ?r) = ?r" by blast
  from k f4 have s4: "snd (add_birthday ''31.02.2020'' ?r) = ?r" by blast
  from k f5 have s5: "snd (delete ''Eve'' [(''Ann'', Record_init ''Ann'')]) = [(''Ann'', Record_init ''Ann'')]"
    by blast
  show ?thesis
    using f1 s1 f2 s2 f3 s3 f4 s4 f5 s5 by (simp only: prod_eq_iff fst_conv snd_conv simp_thms)
qed

text \<open>
  Claim C8. Starting from the empty book, after any sequence of \<^verbatim>\<open>add_record\<close> and
  \<^verbatim>\<open>delete\<close> calls every key of the book is the name of the record stored under it, and no
  key stands twice. \<^verbatim>\<open>add_record\<close> never raises and stores the record under its name,
  replacing what was stored there (the last write wins) and leaving the other keys alone.
\<close>

theorem key_equals_name:
  "(\<forall>(k, r) \<in> set (run_ops ops []). k = field_value (name r)) \<and>
   distinct (map fst (run_ops ops [])) \<and>
   fst (add_record record book) = Inr () \<and>
   map_of (snd (add_record record book)) = (map_of book)(field_value (name record) \<mapsto> record)"
proof -
  have "key_is_name (run_ops ops []) \<and> distinct (map fst (run_ops ops []))"
    by (rule run_ops_inv) (simp_all add: key_is_name_def)
  then show ?thesis
    by (simp add: key_is_name_def list_all_iff add_record_def update_conv')
qed

theorem key_equals_name_witness:
  "run_ops [AddRecord (Record_init ''Ann''),
            AddRecord (Record_init ''Bob''),
            AddRecord (Record_init ''Ann''\<lparr>phones := [MkField ''1111111111'']\<rparr>),
            Delete ''Bob'', Delete ''Eve''] [] =
     [(''Ann'', Record_init ''Ann''\<lparr>phones := [MkField ''1111111111'']\<rparr>)] \<and>
   ''Ann'' = field_value (name (Record_init ''Ann''\<lparr>phones := [MkField ''1111111111'']\<rparr>))"
proof -
  have run: "run_ops [AddRecord (Record_init ''Ann''),
            AddRecord (Record_init ''Bob''),
            AddRecord (Record_init ''Ann''\<lparr>phones := [MkField ''1111111111'']\<rparr>),
            Delete ''Bob'', Delete ''Eve''] [] =
     [(''Ann'', Record_init ''Ann''\<lparr>phones := [MkField ''1111111111'']\<rparr>)]"
    by (simp add: add_record_def delete_def Record_init_def)
  have "\<forall>(k, r) \<in> set (run_ops [AddRecord (Record_init ''Ann''),
            AddRecord (Record_init ''Bob''),
            AddRecord (Record_init ''Ann''\<lparr>phones := [MkField ''1111111111'']\<rparr>),
            Delete ''Bob'', Delete ''Eve''] []). k = field_value (name r)"
    using key_equals_name by blast
  with run show ?thesis by simp
qed

text \<open>
  Claim C9. \<^verbatim>\<open>delete(name)\<close> raises \<^verbatim>\<open>KeyError\<close> (the spec's \<^verbatim>\<open>NotFoundError\<close>) and leaves the
  book as it was when the book has no such key; when it has, the call returns, the key is
  gone, every other key maps to what it mapped to, and the remaining entries keep their
  order: the book without that one entry.
\<close>

theorem delete_spec:
  "(map_of book n = None \<longrightarrow>
      delete n book = (Inl (KeyError (''Contact '' @ n @ '' not found'')), book)) \<and>
   (map_of book n = Some r \<longrightarrow>
      fst (delete n book) = Inr () \<and>
      map_of (snd (delete n book)) = (map_of book)(n := None) \<and>
      (distinct (map fst book) \<longrightarrow>
         (\<exists>xs ys. book = xs @ (n, r) # ys \<and> snd (delete n book) = xs @ ys)))"
proof -
  have "map_of book n = Some r \<Longrightarrow> distinct (map fst book) \<Longrightarrow>
      \<exists>xs ys. book = xs @ (n, r) # ys \<and> snd (delete n book) = xs @ ys"
    using delete_split [of book n r] by (simp add: delete_def del: map_of_eq_Some_iff)
  then show ?thesis by (auto simp: delete_def delete_conv' simp del: map_of_eq_Some_iff)
qed

theorem delete_spec_witness:
  "delete ''Eve'' [(''Ann'', Record_init ''Ann''), (''Bob'', Record_init ''Bob'')] =
     (Inl (KeyError ''Contact Eve not found''),
      [(''Ann'', Record_init ''Ann''), (''Bob'', Record_init ''Bob'')]) \<and>
   delete ''Ann'' [(''Ann'', Record_init ''Ann''), (''Bob'', Record_init ''Bob'')] =
     (Inr (), [(''Bob'', Record_init ''Bob'')])"
proof -
  have a: "map_of [(''Ann'', Record_init ''Ann''), (''Bob'', Record_init ''Bob'')] ''Eve'' = None"
    and b: "map_of [(''Ann'', Record_init ''Ann''), (''Bob'', Record_init ''Bob'')] ''Ann'' =
       Some (Record_init ''Ann'')"
    and c: "distinct (map fst [(''Ann'', Record_init ''Ann''), (''Bob'', Record_init ''Bob'')])"
    by simp_all
  from a have 1: "delete ''Eve'' [(''Ann'', Record_init ''Ann''), (''Bob'', Record_init ''Bob'')] =
     (Inl (KeyError ''Contact Eve not found''),
      [(''Ann'', Record_init ''Ann''), (''Bob'', Record_init ''Bob'')])"
    using delete_spec [of "[(''Ann'', Record_init ''Ann''), (''Bob'', Record_init ''Bob'')]" "''Eve''"]
    by simp
  from b c obtain xs ys where
    s: "[(''Ann'', Record_init ''Ann''), (''Bob'', Record_init ''Bob'')] = xs @ (''Ann'', Record_init ''Ann'') # ys"
    and d: "snd (delete ''Ann'' [(''Ann'', Record_init ''Ann''), (''Bob'', Record_init ''Bob'')]) = xs @ ys"
    and f: "fst (delete ''Ann'' [(''Ann'', Record_init ''Ann''), (''Bob'', Record_init ''Bob'')]) = Inr ()"
    using delete_spec [of "[(''Ann'', Record_init ''Ann''), (''Bob'', Record_init ''Bob'')]" "''Ann''"
        "Record_init ''Ann''"]
    by blast
  have "snd (delete ''Ann'' [(''Ann'', Record_init ''Ann''), (''Bob'', Record_init ''Bob'')]) =
      [(''Bob'', Record_init ''Bob'')]"
    by (simp add: delete_def)
  with f have 2: "delete ''Ann'' [(''Ann'', Record_init ''Ann''), (''Bob'', Record_init ''Bob'')] =
     (Inr (), [(''Bob'', Record_init ''Bob'')])"
    by (simp add: prod_eq_iff)
  from 1 2 show ?thesis by simp
qed






text \<open>
  Claim C3. With \<open>today\<close> in a year that is no leap year, a record whose birthday is a
  29 February should get a concrete candidate date and the query should return. The program
  does neither: \<^verbatim>\<open>birthday_date.replace(year=today.year)\<close> raises \<^verbatim>\<open>ValueError\<close>, and the
  query raises for every book that holds such a record.
\<close>

theorem leap_day_raises:
  assumes "valid_date today" and "\<not> is_leap (year today)"
    and "birthday r = Some b" and "strptime (field_value b) = Inr (Date y 2 29)"
    and "(k, r) \<in> set book"
  shows "upcoming_entry today r = Inl (ValueError ''day is out of range for month'') \<and>
     (\<exists>e. get_upcoming_birthdays today book = Inl e)"
proof -
  from assms(1) have "1 \<le> year today" "year today \<le> 9999" by (simp_all add: valid_date_def)
  with assms(2) have "replace_year (Date y 2 29) (year today) =
      Inl (ValueError ''day is out of range for month'')"
    by (simp add: replace_year_def mk_date_def days_in_month_def DAYS_IN_MONTH_def)
  with assms(3,4) have e: "upcoming_entry today r = Inl (ValueError ''day is out of range for month'')"
    by (simp add: upcoming_entry_def birthday_this_year_def)
  from assms(5) have "r \<in> set (map snd book)" by force
  from upcoming_loop_raises [OF this e] have "\<exists>e. get_upcoming_birthdays today book = Inl e"
    by (simp add: get_upcoming_birthdays_def)
  with e show ?thesis by simp
qed

theorem leap_day_raises_witness:
  "get_upcoming_birthdays (Date 2023 6 10)
     [(''Bob'', Record_init ''Bob''\<lparr>birthday := Some (MkField ''12.06.2000'')\<rparr>),
      (''Ann'', Record_init ''Ann''\<lparr>birthday := Some (MkField ''29.02.2020'')\<rparr>)] =
     Inl (ValueError ''day is out of range for month'') \<and>
   Birthday ''29.02.2020'' = Inr (MkField ''29.02.2020'') \<and>
   upcoming_entry (Date 2023 6 10)
     (Record_init ''Ann''\<lparr>birthday := Some (MkField ''29.02.2020'')\<rparr>) =
     Inl (ValueError ''day is out of range for month'')"
proof -
  let ?r = "Record_init ''Ann''\<lparr>birthday := Some (MkField ''29.02.2020'')\<rparr>"
  let ?book = "[(''Bob'', Record_init ''Bob''\<lparr>birthday := Some (MkField ''12.06.2000'')\<rparr>),
      (''Ann'', ?r)]"
  have h1: "valid_date (Date 2023 6 10)" by code_simp
  have h2: "\<not> is_leap (year (Date 2023 6 10))" by code_simp
  have h3: "birthday ?r = Some (MkField ''29.02.2020'')" by simp
  have h4: "strptime (field_value (MkField ''29.02.2020'')) = Inr (Date 2020 2 29)" by code_simp
  have h5: "(''Ann'', ?r) \<in> set ?book" by simp
  have g: "get_upcoming_birthdays (Date 2023 6 10) ?book =
      Inl (ValueError ''day is out of range for month'')" by code_simp
  have c: "Birthday ''29.02.2020'' = Inr (MkField ''29.02.2020'')" by code_simp
  from leap_day_raises [OF h1 h2 h3 h4 h5] g c show ?thesis by simp
qed






end
